theory Spec2Isabelle
  imports Main "HOL-Library.Word" "HOL-Library.Monad_Syntax" "HOL-Library.Sublist"
begin

section \<open>Data model of the workflow documents\<close>

text \<open>
  The fields of the workflow API types that the local controller and the Docker
  executor read or write. A Go \<^verbatim>\<open>error\<close> is represented by its message text; a
  nil pointer by \<open>None\<close>.
\<close>

type_synonym error = string

record EnvVar =
  env_Name :: string
  env_Value :: string

record VolumeMount =
  vm_Name :: string
  vm_MountPath :: string

record Container =
  Image :: string
  Command :: "string list"
  Args :: "string list"
  WorkingDir :: string
  Env :: "EnvVar list"
  VolumeMounts :: "VolumeMount list"

text \<open>A script template is a container with an inline source text.\<close>

record ScriptTemplate = Container +
  Source :: string

record WorkflowStep =
  step_Name :: string
  step_Template :: string

record ParallelSteps =
  Steps :: "WorkflowStep list"

record DAGTask =
  task_Name :: string
  task_Template :: string
  task_Dependencies :: "string list"

record DAGTemplate =
  Tasks :: "DAGTask list"

record Template =
  tmpl_Name :: string
  tmpl_Container :: "Container option"
  tmpl_Script :: "ScriptTemplate option"
  tmpl_Steps :: "ParallelSteps list option"
  tmpl_DAG :: "DAGTemplate option"

record Workflow_Spec =
  Entrypoint :: string
  Templates :: "Template list"

text \<open>
  Phases are typed strings in the source; the named constants are the ones the
  local engine uses.
\<close>

type_synonym NodePhase = string
type_synonym WorkflowPhase = string

abbreviation NodeRunning :: NodePhase where "NodeRunning \<equiv> ''Running''"
abbreviation NodeSucceeded :: NodePhase where "NodeSucceeded \<equiv> ''Succeeded''"
abbreviation NodeFailed :: NodePhase where "NodeFailed \<equiv> ''Failed''"
abbreviation NodeError :: NodePhase where "NodeError \<equiv> ''Error''"
abbreviation NodeTypePod :: string where "NodeTypePod \<equiv> ''Pod''"

abbreviation WorkflowPending :: WorkflowPhase where "WorkflowPending \<equiv> ''Pending''"
abbreviation WorkflowRunning :: WorkflowPhase where "WorkflowRunning \<equiv> ''Running''"
abbreviation WorkflowSucceeded :: WorkflowPhase where "WorkflowSucceeded \<equiv> ''Succeeded''"
abbreviation WorkflowFailed :: WorkflowPhase where "WorkflowFailed \<equiv> ''Failed''"

text \<open>A timestamp; \<open>None\<close> is the zero time.\<close>

type_synonym Time = "nat option"

record Parameter =
  param_Name :: string
  param_Value :: "string option"

record Outputs =
  Parameters :: "Parameter list"

record NodeStatus =
  ID :: string
  node_Name :: string
  DisplayName :: string
  Type :: string
  Phase :: NodePhase
  Message :: string
  StartedAt :: Time
  FinishedAt :: Time
  HostNodeName :: string
  node_Outputs :: "Outputs option"

text \<open>
  A Go map is a reference: the field \<open>Nodes\<close> of a workflow status is nil or the
  address of the map's cells in the store (see the controller below).
\<close>

type_synonym addr = nat

record WorkflowStatus =
  wf_Phase :: WorkflowPhase
  wf_StartedAt :: Time
  wf_FinishedAt :: Time
  wf_Message :: string
  Nodes :: "addr option"

record Workflow =
  wf_Name :: string
  Spec :: Workflow_Spec
  Status :: WorkflowStatus

section \<open>The container runtime as seen by the executor\<close>

text \<open>
  The Docker client is an external collaborator. One value of \<open>Runtime\<close> fixes how
  it answers during one execution of a unit of work: the result of create, start,
  wait, log reading and removal, and the two readings of the clock. The wait
  operation hands back two channels and the executor selects on them: \<open>ErrCh\<close> is
  a receive from the error channel (its value may be nil), \<open>StatusCh\<close> a receive
  from the status channel with the 64-bit exit code.
\<close>

record Config =
  cfg_Image :: string
  cfg_Cmd :: "string list"
  cfg_Env :: "string list"
  cfg_WorkingDir :: string
  AttachStdout :: bool
  AttachStderr :: bool
  Tty :: bool

record Mount =
  mount_Type :: string
  mount_Source :: string
  mount_Target :: string

record HostConfig =
  AutoRemove :: bool
  Mounts :: "Mount list"

datatype wait_result = ErrCh "error option" | StatusCh "64 word"

record Runtime =
  ContainerCreate :: "Config \<Rightarrow> HostConfig \<Rightarrow> string \<Rightarrow> error + string"
  ContainerStart :: "string \<Rightarrow> error option"
  ContainerWait :: "string \<Rightarrow> wait_result"
  ContainerLogs :: "string \<Rightarrow> error + string"
  ContainerRemove :: "string \<Rightarrow> bool \<Rightarrow> error option"
  now_started :: nat
  now_finished :: nat

text \<open>The calls the executor makes on the runtime, in the order it makes them.\<close>

datatype docker_call =
    Create Config HostConfig string
  | Start string
  | Wait string
  | Logs string
  | Remove string bool

text \<open>
  What an executor method does: it returns its pair of node status and error
  (either may be nil), or it panics.
\<close>

datatype exec_result = Panicked | Returned "NodeStatus option" "error option"

section \<open>Formatting\<close>

text \<open>The verb \<^verbatim>\<open>%d\<close> of a signed integer: decimal digits, a minus sign when negative.\<close>

definition digit_char :: "nat \<Rightarrow> char" where
  "digit_char d = ''0123456789'' ! d"

fun show_nat :: "nat \<Rightarrow> string" where
  "show_nat n = (if n < 10 then [digit_char n] else show_nat (n div 10) @ [digit_char (n mod 10)])"

declare show_nat.simps [simp del]

definition show_int :: "int \<Rightarrow> string" where
  "show_int i = (if i < 0 then CHR ''-'' # show_nat (nat (- i)) else show_nat (nat i))"

text \<open>
  \<^verbatim>\<open>strings.ReplaceAll(s, old, new)\<close> where \<open>old\<close> and \<open>new\<close> are one character each,
  the only way the executor calls it.
\<close>

definition ReplaceAll :: "string \<Rightarrow> char \<Rightarrow> char \<Rightarrow> string" where
  "ReplaceAll s old new = map (\<lambda>c. if c = old then new else c) s"

section \<open>The Docker executor\<close>

text \<open>
  \<^verbatim>\<open>buildEnvVars\<close>: three injected variables, then the loop over the container's
  variables and the loop over the script's variables, each appending one entry.
\<close>

definition format_env :: "EnvVar \<Rightarrow> string" where
  "format_env e = env_Name e @ ''='' @ env_Value e"

fun append_envs :: "string list \<Rightarrow> EnvVar list \<Rightarrow> string list" where
  "append_envs envVars [] = envVars"
| "append_envs envVars (e # es) = append_envs (envVars @ [format_env e]) es"

definition buildEnvVars :: "Template \<Rightarrow> Workflow \<Rightarrow> string \<Rightarrow> string list" where
  "buildEnvVars tmpl wflow nodeName =
     (let envVars = [''ARGO_WORKFLOW_NAME='' @ wf_Name wflow,
                     ''ARGO_NODE_NAME='' @ nodeName,
                     ''ARGO_TEMPLATE_NAME='' @ tmpl_Name tmpl];
          envVars = (case tmpl_Container tmpl of
                       None \<Rightarrow> envVars
                     | Some c \<Rightarrow> append_envs envVars (Env c));
          envVars = (case tmpl_Script tmpl of
                       None \<Rightarrow> envVars
                     | Some sc \<Rightarrow> append_envs envVars (Env sc))
      in envVars)"

text \<open>The name under which the container is created (computed inline by both methods).\<close>

definition containerName :: "Workflow \<Rightarrow> string \<Rightarrow> string" where
  "containerName wflow nodeName =
     ReplaceAll (''argo-'' @ wf_Name wflow @ ''-'' @ nodeName) (CHR ''.'') (CHR ''-'')"

definition logs_outputs :: "string \<Rightarrow> Outputs" where
  "logs_outputs logs = \<lparr>Parameters = [\<lparr>param_Name = ''logs'', param_Value = Some logs\<rparr>]\<rparr>"

text \<open>The node status both methods build once the container has started.\<close>

definition initial_status :: "(string \<Rightarrow> string \<Rightarrow> string) \<Rightarrow> Runtime \<Rightarrow> Workflow \<Rightarrow> string \<Rightarrow> NodeStatus" where
  "initial_status NodeID rt wflow nodeName =
     \<lparr>ID = NodeID (wf_Name wflow) nodeName,
      node_Name = nodeName,
      DisplayName = nodeName,
      Type = NodeTypePod,
      Phase = NodeRunning,
      Message = [],
      StartedAt = Some (now_started rt),
      FinishedAt = None,
      HostNodeName = containerName wflow nodeName,
      node_Outputs = None\<rparr>"

text \<open>
  \<^verbatim>\<open>ExecuteContainer\<close>. The method \<^verbatim>\<open>NodeID\<close> of the workflow is not part of the local engine and is
  a parameter. The result comes with the list of runtime calls made.
\<close>

definition ExecuteContainer ::
  "(string \<Rightarrow> string \<Rightarrow> string) \<Rightarrow> Runtime \<Rightarrow> string \<Rightarrow> Template \<Rightarrow> Workflow
     \<Rightarrow> exec_result \<times> docker_call list" where
  "ExecuteContainer NodeID rt nodeName tmpl wflow =
     (case tmpl_Container tmpl of
        None \<Rightarrow>
          (Returned None (Some (''template '' @ tmpl_Name tmpl @ '' does not have a container spec'')), [])
      | Some c \<Rightarrow>
          (let containerConfig =
                 \<lparr>cfg_Image = Image c,
                  cfg_Cmd = (if length (Args c) > 0 then Command c @ Args c else Command c),
                  cfg_Env = buildEnvVars tmpl wflow nodeName,
                  cfg_WorkingDir = WorkingDir c,
                  AttachStdout = True, AttachStderr = True, Tty = False\<rparr>;
               hostConfig =
                 \<lparr>AutoRemove = False,
                  Mounts = (if length (VolumeMounts c) > 0
                            then map (\<lambda>vm. \<lparr>mount_Type = ''bind'',
                                             mount_Source = ''/tmp/argo-local/'' @ wf_Name wflow @ ''/'' @ vm_Name vm,
                                             mount_Target = vm_MountPath vm\<rparr>) (VolumeMounts c)
                            else [])\<rparr>;
               cname = containerName wflow nodeName;
               created = Create containerConfig hostConfig cname
           in case ContainerCreate rt containerConfig hostConfig cname of
                Inl err \<Rightarrow> (Returned None (Some (''failed to create container: '' @ err)), [created])
              | Inr respID \<Rightarrow>
                  (case ContainerStart rt respID of
                     Some err \<Rightarrow>
                       (Returned None (Some (''failed to start container: '' @ err)),
                        [created, Start respID])
                   | None \<Rightarrow>
                       (let nodeStatus = initial_status NodeID rt wflow nodeName;
                            removed = Remove respID True
                        in case ContainerWait rt respID of
                             ErrCh (Some err) \<Rightarrow>
                               (Returned (Some (nodeStatus\<lparr>Phase := NodeError, Message := err\<rparr>)) (Some err),
                                [created, Start respID, Wait respID])
                           | ErrCh None \<Rightarrow>
                               (Returned (Some nodeStatus) None,
                                [created, Start respID, Wait respID, removed])
                           | StatusCh statusCode \<Rightarrow>
                               (let nodeStatus = nodeStatus\<lparr>FinishedAt := Some (now_finished rt)\<rparr>;
                                    nodeStatus =
                                      (if statusCode = 0 then nodeStatus\<lparr>Phase := NodeSucceeded\<rparr>
                                       else nodeStatus\<lparr>Phase := NodeFailed,
                                              Message := ''container exited with code '' @ show_int (sint statusCode)\<rparr>);
                                    nodeStatus =
                                      (case ContainerLogs rt respID of
                                         Inl err \<Rightarrow> nodeStatus
                                       | Inr logs \<Rightarrow> nodeStatus\<lparr>node_Outputs := Some (logs_outputs logs)\<rparr>)
                                in (Returned (Some nodeStatus) None,
                                    [created, Start respID, Wait respID, Logs respID, removed]))))))"

text \<open>
  \<^verbatim>\<open>ExecuteScript\<close>. The command is the first element of the script's command list,
  read by index before anything else is done with the list; on an empty list the
  index expression panics.
\<close>

definition ExecuteScript ::
  "(string \<Rightarrow> string \<Rightarrow> string) \<Rightarrow> Runtime \<Rightarrow> string \<Rightarrow> Template \<Rightarrow> Workflow
     \<Rightarrow> exec_result \<times> docker_call list" where
  "ExecuteScript NodeID rt nodeName tmpl wflow =
     (case tmpl_Script tmpl of
        None \<Rightarrow>
          (Returned None (Some (''template '' @ tmpl_Name tmpl @ '' does not have a script spec'')), [])
      | Some sc \<Rightarrow>
          (case Command sc of
             [] \<Rightarrow> (Panicked, [])
           | command0 # command_rest \<Rightarrow>
          (let cmd = [command0];
               cmd = (if length (Command sc) > 1 then cmd @ command_rest else cmd);
               cmd = cmd @ [''-c'', Source sc];
               containerConfig =
                 \<lparr>cfg_Image = Image sc,
                  cfg_Cmd = cmd,
                  cfg_Env = buildEnvVars tmpl wflow nodeName,
                  cfg_WorkingDir = WorkingDir sc,
                  AttachStdout = True, AttachStderr = True, Tty = False\<rparr>;
               hostConfig = \<lparr>AutoRemove = False, Mounts = []\<rparr>;
               cname = containerName wflow nodeName;
               created = Create containerConfig hostConfig cname
           in case ContainerCreate rt containerConfig hostConfig cname of
                Inl err \<Rightarrow> (Returned None (Some (''failed to create container: '' @ err)), [created])
              | Inr respID \<Rightarrow>
                  (case ContainerStart rt respID of
                     Some err \<Rightarrow>
                       (Returned None (Some (''failed to start container: '' @ err)),
                        [created, Start respID])
                   | None \<Rightarrow>
                       (let nodeStatus = initial_status NodeID rt wflow nodeName;
                            removed = Remove respID True
                        in case ContainerWait rt respID of
                             ErrCh (Some err) \<Rightarrow>
                               (Returned (Some (nodeStatus\<lparr>Phase := NodeError, Message := err\<rparr>)) (Some err),
                                [created, Start respID, Wait respID])
                           | ErrCh None \<Rightarrow>
                               (Returned (Some nodeStatus) None,
                                [created, Start respID, Wait respID, removed])
                           | StatusCh statusCode \<Rightarrow>
                               (let nodeStatus = nodeStatus\<lparr>FinishedAt := Some (now_finished rt)\<rparr>;
                                    nodeStatus =
                                      (if statusCode = 0 then nodeStatus\<lparr>Phase := NodeSucceeded\<rparr>
                                       else nodeStatus\<lparr>Phase := NodeFailed,
                                              Message := ''script exited with code '' @ show_int (sint statusCode)\<rparr>);
                                    nodeStatus =
                                      (case ContainerLogs rt respID of
                                         Inl err \<Rightarrow> nodeStatus
                                       | Inr logs \<Rightarrow> nodeStatus\<lparr>node_Outputs := Some (logs_outputs logs)\<rparr>)
                                in (Returned (Some nodeStatus) None,
                                    [created, Start respID, Wait respID, Logs respID, removed])))))))"

section \<open>The store of the controller\<close>

text \<open>
  The controller keeps pointers: the registry maps a run name to a pointer to a
  \<^verbatim>\<open>WorkflowExecution\<close>, which holds a pointer to the submitted workflow object
  and a pointer to that object's status field; the status holds the reference of
  its node map. The store has one heap per kind of object, an address being an
  index into the heap; allocation appends. Reading through a pointer that is not
  in the heap is a nil dereference: the operation panics, which is the result
  \<open>None\<close>.

  The mutexes are not part of the store: every operation below is one critical
  section, or one access outside any lock, and is applied atomically.
\<close>

record WorkflowExecution =
  we_Workflow :: addr
  we_Status :: addr

record state =
  workflows :: "string \<rightharpoonup> addr"
  executions :: "WorkflowExecution list"
  objects :: "Workflow list"
  node_maps :: "(string \<rightharpoonup> NodeStatus) list"
  goroutines :: "addr list"

definition deref :: "'a list \<Rightarrow> addr \<Rightarrow> 'a option" where
  "deref h a = (if a < length h then Some (h ! a) else None)"

text \<open>A write to a field of the status that the pointer \<open>p\<close> designates.\<close>

definition update_status :: "addr \<Rightarrow> (WorkflowStatus \<Rightarrow> WorkflowStatus) \<Rightarrow> state \<Rightarrow> state option" where
  "update_status p f st =
     do { wflow \<leftarrow> deref (objects st) p;
          Some (st\<lparr>objects := (objects st)[p := wflow\<lparr>Status := f (Status wflow)\<rparr>]\<rparr>) }"

text \<open>
  \<^verbatim>\<open>SubmitWorkflow\<close>, called with the pointer \<open>p\<close> to the workflow and with the
  reading \<open>now\<close> of the clock. It returns its error (always nil), and the store
  in which the walk has been started as a goroutine but has not run.
\<close>

definition SubmitWorkflow :: "nat \<Rightarrow> addr \<Rightarrow> state \<Rightarrow> (error option \<times> state) option" where
  "SubmitWorkflow now p st =
     do { wflow \<leftarrow> deref (objects st) p;
          st \<leftarrow> (if wf_Phase (Status wflow) = []
                then update_status p (\<lambda>s. s\<lparr>wf_Phase := WorkflowPending, wf_StartedAt := Some now\<rparr>) st
                else Some st);
          let wfExec = length (executions st);
              st = st\<lparr>executions := executions st @ [\<lparr>we_Workflow = p, we_Status = p\<rparr>]\<rparr>;
              st = st\<lparr>workflows := (workflows st)(wf_Name wflow \<mapsto> wfExec)\<rparr>;
              st = st\<lparr>goroutines := goroutines st @ [wfExec]\<rparr>
          in Some (None, st) }"

text \<open>
  \<^verbatim>\<open>DeepCopy\<close> of a workflow (generated code, outside the local engine): every
  field is copied, a node map into a newly allocated map.
\<close>

definition DeepCopy :: "Workflow \<Rightarrow> state \<Rightarrow> (Workflow \<times> state) option" where
  "DeepCopy wflow st =
     (case Nodes (Status wflow) of
        None \<Rightarrow> Some (wflow, st)
      | Some m \<Rightarrow>
          do { nodes \<leftarrow> deref (node_maps st) m;
               Some (wflow\<lparr>Status := (Status wflow)\<lparr>Nodes := Some (length (node_maps st))\<rparr>\<rparr>,
                     st\<lparr>node_maps := node_maps st @ [nodes]\<rparr>) })"

abbreviation quoted :: "string \<Rightarrow> string" where
  "quoted s \<equiv> [CHR 0x27] @ s @ [CHR 0x27]"

text \<open>
  The body of \<^verbatim>\<open>GetWorkflow\<close> and of the loop of \<^verbatim>\<open>ListWorkflows\<close>: the deep copy, then
  the assignment of the dereferenced status to the copy's status field, which
  copies the fields of the status struct, the reference of the node map among
  them.
\<close>

definition snapshot :: "addr \<Rightarrow> state \<Rightarrow> (Workflow \<times> state) option" where
  "snapshot e st =
     do { wfExec \<leftarrow> deref (executions st) e;
          stored \<leftarrow> deref (objects st) (we_Workflow wfExec);
          (wflow, st) \<leftarrow> DeepCopy stored st;
          status_owner \<leftarrow> deref (objects st) (we_Status wfExec);
          Some (wflow\<lparr>Status := Status status_owner\<rparr>, st) }"

definition GetWorkflow :: "string \<Rightarrow> state \<Rightarrow> ((error + Workflow) \<times> state) option" where
  "GetWorkflow name st =
     (case workflows st name of
        None \<Rightarrow> Some (Inl (''workflow '' @ quoted name @ '' not found''), st)
      | Some e \<Rightarrow> do { (wflow, st) \<leftarrow> snapshot e st; Some (Inr wflow, st) })"

text \<open>
  \<^verbatim>\<open>ListWorkflows\<close>. The order in which Go ranges over a map is not fixed; \<open>names\<close>
  is the order taken, an enumeration of the registered names.
\<close>

fun ListWorkflows :: "string list \<Rightarrow> state \<Rightarrow> (Workflow list \<times> state) option" where
  "ListWorkflows [] st = Some ([], st)"
| "ListWorkflows (name # names) st =
     (case workflows st name of
        None \<Rightarrow> None
      | Some e \<Rightarrow>
          do { (wflow, st) \<leftarrow> snapshot e st;
               (rest, st) \<leftarrow> ListWorkflows names st;
               Some (wflow # rest, st) })"

text \<open>
  What a caller that holds a returned workflow can read from it: its fields, and
  behind the reference of its node map the current contents of that map.
\<close>

definition nodes_of :: "state \<Rightarrow> Workflow \<Rightarrow> (string \<rightharpoonup> NodeStatus) option" where
  "nodes_of st wflow = (case Nodes (Status wflow) of None \<Rightarrow> None | Some m \<Rightarrow> deref (node_maps st) m)"

text \<open>
  What \<^verbatim>\<open>wf.Status.Nodes[id]\<close> reads through a workflow value that a caller holds.
\<close>

definition lookup_node :: "state \<Rightarrow> Workflow \<Rightarrow> string \<Rightarrow> NodeStatus option" where
  "lookup_node st wflow nid = (case nodes_of st wflow of None \<Rightarrow> None | Some nodes \<Rightarrow> nodes nid)"

section \<open>The walk of a run\<close>

text \<open>
  The walk acts on the store and on the runtime through a sequence of events. A
  goroutine of a step list is identified by the node name of the template
  invocation, the index of the group and the index of the step in the group; a
  goroutine of a task graph by the node name and the index of the task.
\<close>

datatype goroutine = Step string nat nat | Task string nat

datatype event =
    SetRunning
  | InitNodes
  | Call docker_call
  | NodeWrite string NodeStatus
  | Started goroutine
  | Sent goroutine error
  | Finished goroutine
  | MarkFailed error nat
  | MarkSucceeded nat

text \<open>
  The effect of an event of the walk of the execution \<open>e\<close> on the store. The
  events of the runtime and of the goroutines leave the store as it is. A write
  into a nil node map panics.
\<close>

fun apply_event :: "addr \<Rightarrow> event \<Rightarrow> state \<Rightarrow> state option" where
  "apply_event e SetRunning st =
     do { wfExec \<leftarrow> deref (executions st) e;
          update_status (we_Status wfExec) (\<lambda>s. s\<lparr>wf_Phase := WorkflowRunning\<rparr>) st }"
| "apply_event e InitNodes st =
     do { wfExec \<leftarrow> deref (executions st) e;
          status_owner \<leftarrow> deref (objects st) (we_Status wfExec);
          if Nodes (Status status_owner) = None
          then update_status (we_Status wfExec) (\<lambda>s. s\<lparr>Nodes := Some (length (node_maps st))\<rparr>)
                 (st\<lparr>node_maps := node_maps st @ [Map.empty]\<rparr>)
          else Some st }"
| "apply_event e (NodeWrite nid nodeStatus) st =
     do { wfExec \<leftarrow> deref (executions st) e;
          status_owner \<leftarrow> deref (objects st) (we_Status wfExec);
          m \<leftarrow> Nodes (Status status_owner);
          nodes \<leftarrow> deref (node_maps st) m;
          Some (st\<lparr>node_maps := (node_maps st)[m := nodes(nid \<mapsto> nodeStatus)]\<rparr>) }"
| "apply_event e (MarkFailed message now) st =
     do { wfExec \<leftarrow> deref (executions st) e;
          update_status (we_Status wfExec)
            (\<lambda>s. s\<lparr>wf_Phase := WorkflowFailed, wf_Message := message, wf_FinishedAt := Some now\<rparr>) st }"
| "apply_event e (MarkSucceeded now) st =
     do { wfExec \<leftarrow> deref (executions st) e;
          update_status (we_Status wfExec)
            (\<lambda>s. s\<lparr>wf_Phase := WorkflowSucceeded, wf_FinishedAt := Some now\<rparr>) st }"
| "apply_event e (Call c) st = Some st"
| "apply_event e (Started g) st = Some st"
| "apply_event e (Sent g err) st = Some st"
| "apply_event e (Finished g) st = Some st"

fun apply_events :: "addr \<Rightarrow> event list \<Rightarrow> state \<Rightarrow> state option" where
  "apply_events e [] st = Some st"
| "apply_events e (ev # evs) st = do { st \<leftarrow> apply_event e ev st; apply_events e evs st }"

text \<open>
  \<^verbatim>\<open>executeContainerTemplate\<close> and \<^verbatim>\<open>executeScriptTemplate\<close>: the call of the executor, the
  return of its error if there is one, else the write of the node status under
  the lock and the error made from a failed phase. The result is the error
  returned, or \<open>Crashed\<close> where the code panics (the executor panicked, or it
  returned neither status nor error and the status is dereferenced).
\<close>

datatype leaf_result = Crashed | Ret "error option"

definition executeContainerTemplate ::
  "(string \<Rightarrow> string \<Rightarrow> string) \<Rightarrow> Runtime \<Rightarrow> Workflow \<Rightarrow> string \<Rightarrow> Template
     \<Rightarrow> leaf_result \<times> event list" where
  "executeContainerTemplate NodeID rt wflow nodeName tmpl =
     (case ExecuteContainer NodeID rt nodeName tmpl wflow of
        (Panicked, calls) \<Rightarrow> (Crashed, map Call calls)
      | (Returned nodeStatus (Some err), calls) \<Rightarrow> (Ret (Some err), map Call calls)
      | (Returned None None, calls) \<Rightarrow> (Crashed, map Call calls)
      | (Returned (Some nodeStatus) None, calls) \<Rightarrow>
          (if Phase nodeStatus = NodeFailed \<or> Phase nodeStatus = NodeError
           then Ret (Some (''container execution failed: '' @ Message nodeStatus))
           else Ret None,
           map Call calls @ [NodeWrite (ID nodeStatus) nodeStatus]))"

definition executeScriptTemplate ::
  "(string \<Rightarrow> string \<Rightarrow> string) \<Rightarrow> Runtime \<Rightarrow> Workflow \<Rightarrow> string \<Rightarrow> Template
     \<Rightarrow> leaf_result \<times> event list" where
  "executeScriptTemplate NodeID rt wflow nodeName tmpl =
     (case ExecuteScript NodeID rt nodeName tmpl wflow of
        (Panicked, calls) \<Rightarrow> (Crashed, map Call calls)
      | (Returned nodeStatus (Some err), calls) \<Rightarrow> (Ret (Some err), map Call calls)
      | (Returned None None, calls) \<Rightarrow> (Crashed, map Call calls)
      | (Returned (Some nodeStatus) None, calls) \<Rightarrow>
          (if Phase nodeStatus = NodeFailed \<or> Phase nodeStatus = NodeError
           then Ret (Some (''script execution failed: '' @ Message nodeStatus))
           else Ret None,
           map Call calls @ [NodeWrite (ID nodeStatus) nodeStatus]))"

text \<open>
  The templates are looked up by name with a loop that stops at the first match.
\<close>

definition find_template :: "Template list \<Rightarrow> string \<Rightarrow> Template option" where
  "find_template ts name = find (\<lambda>t. tmpl_Name t = name) ts"

text \<open>
  One goroutine of a step group or of a task graph: its identity, the node name it
  computes for its child, the template it looks up, and the error it sends when
  there is no such template.
\<close>

record child =
  child_label :: goroutine
  child_node :: string
  child_template :: string
  child_notfound :: error

definition step_child :: "string \<Rightarrow> nat \<Rightarrow> nat \<times> WorkflowStep \<Rightarrow> child" where
  "step_child nodeName i js =
     (case js of (j, s) \<Rightarrow>
        \<lparr>child_label = Step nodeName i j,
         child_node = nodeName @ ''['' @ show_int (int i) @ ''].'' @ step_Name s,
         child_template = step_Template s,
         child_notfound = ''template '' @ quoted (step_Template s)
                            @ '' not found for step '' @ quoted (step_Name s)\<rparr>)"

definition step_children :: "string \<Rightarrow> nat \<Rightarrow> WorkflowStep list \<Rightarrow> child list" where
  "step_children nodeName i ss = map (step_child nodeName i) (enumerate 0 ss)"

definition task_child :: "string \<Rightarrow> nat \<times> DAGTask \<Rightarrow> child" where
  "task_child nodeName kt =
     (case kt of (k, t) \<Rightarrow>
        \<lparr>child_label = Task nodeName k,
         child_node = nodeName @ ''.'' @ task_Name t,
         child_template = task_Template t,
         child_notfound = ''template '' @ quoted (task_Template t)
                            @ '' not found for task '' @ quoted (task_Name t)\<rparr>)"

definition task_children :: "string \<Rightarrow> DAGTask list \<Rightarrow> child list" where
  "task_children nodeName ts = map (task_child nodeName) (enumerate 0 ts)"

text \<open>
  The errors in the channel of a group once it is closed: those sent by the
  goroutines of the group, in the order of sending.
\<close>

fun errChan :: "goroutine list \<Rightarrow> event list \<Rightarrow> error list" where
  "errChan gs [] = []"
| "errChan gs (Sent g err # tr) = (if g \<in> set gs then err # errChan gs tr else errChan gs tr)"
| "errChan gs (ev # tr) = errChan gs tr"

text \<open>The loop over the closed channel returns the first error, or nil.\<close>

definition first_error :: "error list \<Rightarrow> error option" where
  "first_error errs = (case errs of [] \<Rightarrow> None | err # rest \<Rightarrow> Some err)"

text \<open>
  Goroutines run concurrently: the events of a group are the events of its
  goroutines in any interleaving that keeps the order of each goroutine.
\<close>

inductive merge_of :: "'a list list \<Rightarrow> 'a list \<Rightarrow> bool" where
  merge_done: "concat trs = [] \<Longrightarrow> merge_of trs []"
| merge_pick: "k < length trs \<Longrightarrow> trs ! k = x # t \<Longrightarrow> merge_of (trs[k := t]) tr
                 \<Longrightarrow> merge_of trs (x # tr)"

text \<open>
  An execution either has returned a value or has not returned (it is still
  running, it is blocked for ever, or the process has died in a panic).
\<close>

datatype 'a progress = Pending | Done 'a

text \<open>
  The walk over the templates, as the relation between a template invocation, the
  events it has produced so far and its progress.
  \<^item> \<open>executeTemplate\<close> dispatches on the kind of the template in the order of the
    \<^verbatim>\<open>switch\<close>; a unit of work is run against some runtime out of \<open>R\<close>, the
    behaviours that the runtime may show during the walk (every behaviour, when
    \<open>R\<close> is the universal set), and while it has not returned (or when it has
    panicked) it has produced some prefix of its events.
  \<^item> \<open>executeGroups\<close> is the loop of \<^verbatim>\<open>executeStepsTemplate\<close> from group \<open>i\<close> on: the
    next group is entered only after the wait of the current group has returned
    and its channel held no error.
  \<^item> \<open>fan\<close> is the start of one goroutine per child, the wait for all of them and the
    closing of the channel; its value is the content of the channel.
  \<^item> \<open>go\<close> is the body of one goroutine; its flag says whether it has signalled
    that it is done.
\<close>

inductive
  executeTemplate :: "Runtime set \<Rightarrow> (string \<Rightarrow> string \<Rightarrow> string) \<Rightarrow> Workflow \<Rightarrow> string \<Rightarrow> Template
                        \<Rightarrow> event list \<Rightarrow> error option progress \<Rightarrow> bool"
  and executeGroups :: "Runtime set \<Rightarrow> (string \<Rightarrow> string \<Rightarrow> string) \<Rightarrow> Workflow \<Rightarrow> string \<Rightarrow> nat
                        \<Rightarrow> ParallelSteps list \<Rightarrow> event list \<Rightarrow> error option progress \<Rightarrow> bool"
  and fan :: "Runtime set \<Rightarrow> (string \<Rightarrow> string \<Rightarrow> string) \<Rightarrow> Workflow \<Rightarrow> child list
                        \<Rightarrow> event list \<Rightarrow> error list progress \<Rightarrow> bool"
  and fan_out :: "Runtime set \<Rightarrow> (string \<Rightarrow> string \<Rightarrow> string) \<Rightarrow> Workflow \<Rightarrow> child list
                        \<Rightarrow> (event list \<times> bool) list \<Rightarrow> bool"
  and go :: "Runtime set \<Rightarrow> (string \<Rightarrow> string \<Rightarrow> string) \<Rightarrow> Workflow \<Rightarrow> child \<Rightarrow> event list \<Rightarrow> bool \<Rightarrow> bool"
  for R :: "Runtime set" and NodeID :: "string \<Rightarrow> string \<Rightarrow> string" and wflow :: Workflow
where
  container:
    "tmpl_Container tmpl \<noteq> None
     \<Longrightarrow> executeContainerTemplate NodeID rt wflow nodeName tmpl = (Ret err, evs) \<Longrightarrow> rt \<in> R
     \<Longrightarrow> executeTemplate R NodeID wflow nodeName tmpl evs (Done err)"
| container_running:
    "tmpl_Container tmpl \<noteq> None
     \<Longrightarrow> executeContainerTemplate NodeID rt wflow nodeName tmpl = (res, evs) \<Longrightarrow> prefix evs' evs
     \<Longrightarrow> rt \<in> R
     \<Longrightarrow> executeTemplate R NodeID wflow nodeName tmpl evs' Pending"
| script:
    "tmpl_Container tmpl = None \<Longrightarrow> tmpl_Script tmpl \<noteq> None
     \<Longrightarrow> executeScriptTemplate NodeID rt wflow nodeName tmpl = (Ret err, evs) \<Longrightarrow> rt \<in> R
     \<Longrightarrow> executeTemplate R NodeID wflow nodeName tmpl evs (Done err)"
| script_running:
    "tmpl_Container tmpl = None \<Longrightarrow> tmpl_Script tmpl \<noteq> None
     \<Longrightarrow> executeScriptTemplate NodeID rt wflow nodeName tmpl = (res, evs) \<Longrightarrow> prefix evs' evs
     \<Longrightarrow> rt \<in> R
     \<Longrightarrow> executeTemplate R NodeID wflow nodeName tmpl evs' Pending"
| steps:
    "tmpl_Container tmpl = None \<Longrightarrow> tmpl_Script tmpl = None \<Longrightarrow> tmpl_Steps tmpl = Some groups
     \<Longrightarrow> executeGroups R NodeID wflow nodeName 0 groups tr r
     \<Longrightarrow> executeTemplate R NodeID wflow nodeName tmpl tr r"
| dag:
    "tmpl_Container tmpl = None \<Longrightarrow> tmpl_Script tmpl = None \<Longrightarrow> tmpl_Steps tmpl = None
     \<Longrightarrow> tmpl_DAG tmpl = Some d
     \<Longrightarrow> fan R NodeID wflow (task_children nodeName (Tasks d)) tr (Done errs)
     \<Longrightarrow> executeTemplate R NodeID wflow nodeName tmpl tr (Done (first_error errs))"
| dag_pending:
    "tmpl_Container tmpl = None \<Longrightarrow> tmpl_Script tmpl = None \<Longrightarrow> tmpl_Steps tmpl = None
     \<Longrightarrow> tmpl_DAG tmpl = Some d
     \<Longrightarrow> fan R NodeID wflow (task_children nodeName (Tasks d)) tr Pending
     \<Longrightarrow> executeTemplate R NodeID wflow nodeName tmpl tr Pending"
| unsupported:
    "tmpl_Container tmpl = None \<Longrightarrow> tmpl_Script tmpl = None \<Longrightarrow> tmpl_Steps tmpl = None
     \<Longrightarrow> tmpl_DAG tmpl = None
     \<Longrightarrow> executeTemplate R NodeID wflow nodeName tmpl []
           (Done (Some (''unsupported template type for template '' @ tmpl_Name tmpl)))"
| not_started:
    "executeTemplate R NodeID wflow nodeName tmpl [] Pending"
| groups_end:
    "executeGroups R NodeID wflow nodeName i [] [] (Done None)"
| groups_next:
    "fan R NodeID wflow (step_children nodeName i (Steps g)) tr1 (Done [])
     \<Longrightarrow> executeGroups R NodeID wflow nodeName (Suc i) gs tr2 r
     \<Longrightarrow> executeGroups R NodeID wflow nodeName i (g # gs) (tr1 @ tr2) r"
| groups_error:
    "fan R NodeID wflow (step_children nodeName i (Steps g)) tr1 (Done (err # errs))
     \<Longrightarrow> executeGroups R NodeID wflow nodeName i (g # gs) tr1 (Done (Some err))"
| groups_waiting:
    "fan R NodeID wflow (step_children nodeName i (Steps g)) tr1 Pending
     \<Longrightarrow> executeGroups R NodeID wflow nodeName i (g # gs) tr1 Pending"
| fan_joined:
    "fan_out R NodeID wflow cs outs \<Longrightarrow> merge_of (map fst outs) tr \<Longrightarrow> list_all snd outs
     \<Longrightarrow> fan R NodeID wflow cs tr (Done (errChan (map child_label cs) tr))"
| fan_waiting:
    "fan_out R NodeID wflow cs outs \<Longrightarrow> merge_of (map fst outs) tr
     \<Longrightarrow> fan R NodeID wflow cs tr Pending"
| fan_out_nil:
    "fan_out R NodeID wflow [] []"
| fan_out_cons:
    "go R NodeID wflow c tr fin \<Longrightarrow> fan_out R NodeID wflow cs outs
     \<Longrightarrow> fan_out R NodeID wflow (c # cs) ((tr, fin) # outs)"
| go_notfound:
    "find_template (Templates (Spec wflow)) (child_template c) = None
     \<Longrightarrow> go R NodeID wflow c
           [Started (child_label c), Sent (child_label c) (child_notfound c), Finished (child_label c)]
           True"
| go_ok:
    "find_template (Templates (Spec wflow)) (child_template c) = Some tmpl
     \<Longrightarrow> executeTemplate R NodeID wflow (child_node c) tmpl tr (Done None)
     \<Longrightarrow> go R NodeID wflow c (Started (child_label c) # tr @ [Finished (child_label c)]) True"
| go_error:
    "find_template (Templates (Spec wflow)) (child_template c) = Some tmpl
     \<Longrightarrow> executeTemplate R NodeID wflow (child_node c) tmpl tr (Done (Some err))
     \<Longrightarrow> go R NodeID wflow c
           (Started (child_label c) # tr @ [Sent (child_label c) err, Finished (child_label c)]) True"
| go_running:
    "find_template (Templates (Spec wflow)) (child_template c) = Some tmpl
     \<Longrightarrow> executeTemplate R NodeID wflow (child_node c) tmpl tr Pending
     \<Longrightarrow> go R NodeID wflow c (Started (child_label c) # tr) False"
| go_not_finished:
    "go R NodeID wflow c tr fin \<Longrightarrow> prefix tr' tr \<Longrightarrow> go R NodeID wflow c tr' False"

text \<open>
  \<^verbatim>\<open>executeWorkflow\<close>, the walk of one run, over the workflow \<open>wflow\<close> that the
  execution points to: the events so far, and whether the walk has returned.
\<close>

inductive executeWorkflow :: "Runtime set \<Rightarrow> (string \<Rightarrow> string \<Rightarrow> string) \<Rightarrow> Workflow \<Rightarrow> event list \<Rightarrow> bool \<Rightarrow> bool"
  for R :: "Runtime set" and NodeID :: "string \<Rightarrow> string \<Rightarrow> string" and wflow :: Workflow
where
  no_entrypoint:
    "Entrypoint (Spec wflow) = []
     \<Longrightarrow> executeWorkflow R NodeID wflow
           [SetRunning, InitNodes, MarkFailed ''No entrypoint specified'' now] True"
| entrypoint_not_found:
    "Entrypoint (Spec wflow) \<noteq> []
     \<Longrightarrow> find_template (Templates (Spec wflow)) (Entrypoint (Spec wflow)) = None
     \<Longrightarrow> executeWorkflow R NodeID wflow
           [SetRunning, InitNodes,
            MarkFailed (''Entrypoint template '' @ quoted (Entrypoint (Spec wflow)) @ '' not found'') now]
           True"
| walk_failed:
    "Entrypoint (Spec wflow) \<noteq> []
     \<Longrightarrow> find_template (Templates (Spec wflow)) (Entrypoint (Spec wflow)) = Some tmpl
     \<Longrightarrow> executeTemplate R NodeID wflow (Entrypoint (Spec wflow)) tmpl tr (Done (Some err))
     \<Longrightarrow> executeWorkflow R NodeID wflow ([SetRunning, InitNodes] @ tr @ [MarkFailed err now]) True"
| walk_succeeded:
    "Entrypoint (Spec wflow) \<noteq> []
     \<Longrightarrow> find_template (Templates (Spec wflow)) (Entrypoint (Spec wflow)) = Some tmpl
     \<Longrightarrow> executeTemplate R NodeID wflow (Entrypoint (Spec wflow)) tmpl tr (Done None)
     \<Longrightarrow> executeWorkflow R NodeID wflow ([SetRunning, InitNodes] @ tr @ [MarkSucceeded now]) True"
| walk_running:
    "Entrypoint (Spec wflow) \<noteq> []
     \<Longrightarrow> find_template (Templates (Spec wflow)) (Entrypoint (Spec wflow)) = Some tmpl
     \<Longrightarrow> executeTemplate R NodeID wflow (Entrypoint (Spec wflow)) tmpl tr Pending
     \<Longrightarrow> executeWorkflow R NodeID wflow ([SetRunning, InitNodes] @ tr) False"
| walk_not_returned:
    "executeWorkflow R NodeID wflow tr fin \<Longrightarrow> prefix tr' tr
     \<Longrightarrow> executeWorkflow R NodeID wflow tr' False"

text \<open>
  For statements about traces: the goroutine that an event belongs to, if it is
  an event of a goroutine, and the node name of the template invocation that
  started a goroutine. The events of an invocation at node \<open>n\<close> come from
  goroutines it started itself or from invocations at longer node names
  (\<open>below\<close>); those of one goroutine from that goroutine or from invocations
  at or under the node of its child (\<open>owned\<close>).
\<close>

fun goroutine_of :: "event \<Rightarrow> goroutine option" where
  "goroutine_of (Started g) = Some g"
| "goroutine_of (Sent g err) = Some g"
| "goroutine_of (Finished g) = Some g"
| "goroutine_of ev = None"

fun parent :: "goroutine \<Rightarrow> string" where
  "parent (Step n i j) = n"
| "parent (Task n k) = n"

definition below :: "string \<Rightarrow> event list \<Rightarrow> bool" where
  "below n tr = (\<forall>ev\<in>set tr. \<forall>g. goroutine_of ev = Some g \<longrightarrow> length n \<le> length (parent g))"

definition owned :: "child \<Rightarrow> event list \<Rightarrow> bool" where
  "owned c tr = (\<forall>ev\<in>set tr. \<forall>g. goroutine_of ev = Some g \<longrightarrow>
                   g = child_label c \<or> length (child_node c) \<le> length (parent g))"



section \<open>Example inputs\<close>

text \<open>
  A one-template workflow \<open>demo\<close> whose entry point \<open>main\<close> runs a container, a
  runtime in which create and start succeed under the identifier \<open>c0\<close> and the
  wait ends as given, and a stand-in for the node identifier function.
\<close>

definition example_container :: Container where
  "example_container =
     \<lparr>Image = ''alpine'', Command = [''echo''], Args = [''hello''], WorkingDir = [],
      Env = [], VolumeMounts = []\<rparr>"

definition example_template :: Template where
  "example_template =
     \<lparr>tmpl_Name = ''main'', tmpl_Container = Some example_container, tmpl_Script = None,
      tmpl_Steps = None, tmpl_DAG = None\<rparr>"

definition example_status :: WorkflowStatus where
  "example_status =
     \<lparr>wf_Phase = [], wf_StartedAt = None, wf_FinishedAt = None, wf_Message = [], Nodes = None\<rparr>"

definition example_workflow :: Workflow where
  "example_workflow =
     \<lparr>wf_Name = ''demo'',
      Spec = \<lparr>Entrypoint = ''main'', Templates = [example_template]\<rparr>,
      Status = example_status\<rparr>"

definition example_runtime :: "wait_result \<Rightarrow> Runtime" where
  "example_runtime w =
     \<lparr>ContainerCreate = (\<lambda>cfg hc name. Inr ''c0''),
      ContainerStart = (\<lambda>cid. None),
      ContainerWait = (\<lambda>cid. w),
      ContainerLogs = (\<lambda>cid. Inr ''hello''),
      ContainerRemove = (\<lambda>cid force. None),
      now_started = 1, now_finished = 2\<rparr>"

definition example_NodeID :: "string \<Rightarrow> string \<Rightarrow> string" where
  "example_NodeID wfName nodeName = wfName @ ''/'' @ nodeName"

text \<open>A script template whose command list is empty, and one with an interpreter.\<close>

definition example_script :: "string list \<Rightarrow> Template" where
  "example_script cmd =
     \<lparr>tmpl_Name = ''main'', tmpl_Container = None,
      tmpl_Script = Some \<lparr>Image = ''python'', Command = cmd, Args = [], WorkingDir = [],
                          Env = [], VolumeMounts = [], Source = ''print(1)''\<rparr>,
      tmpl_Steps = None, tmpl_DAG = None\<rparr>"

text \<open>
  A template that declares a variable under the name of an injected one, and the
  characters a container name may consist of besides the dot: letters, digits, the
  underscore and the hyphen.
\<close>

definition example_spoof :: Template where
  "example_spoof =
     \<lparr>tmpl_Name = ''main'',
      tmpl_Container = Some (example_container\<lparr>Env :=
          [\<lparr>env_Name = ''ARGO_WORKFLOW_NAME'', env_Value = ''spoof''\<rparr>,
           \<lparr>env_Name = ''A'', env_Value = ''1''\<rparr>]\<rparr>),
      tmpl_Script = None, tmpl_Steps = None, tmpl_DAG = None\<rparr>"

definition example_allowed :: "char set" where
  "example_allowed = set ''abcdefghijklmnopqrstuvwxyzABCDEFGHIJKLMNOPQRSTUVWXYZ0123456789_-''"

text \<open>
  Stores. In \<open>example_store\<close> two workflow objects have been parsed, both named
  \<open>demo\<close>, and nothing is registered. \<open>example_submitted\<close> is the store after the
  first has been submitted at time 5, \<open>example_resubmitted\<close> after the second has
  been submitted at time 6 as well. In \<open>example_running\<close> the walk of the first
  has set the phase and made the node map; \<open>example_read\<close> is that store after a
  call of \<^verbatim>\<open>GetWorkflow\<close>, which returned \<open>example_snapshot\<close>, and \<open>example_written\<close>
  the store after the walk has then written the status \<open>example_node\<close> of the node
  \<open>main\<close>.
\<close>

definition example_other :: Workflow where
  "example_other =
     \<lparr>wf_Name = ''demo'',
      Spec = \<lparr>Entrypoint = ''other'', Templates = []\<rparr>,
      Status = example_status\<rparr>"

definition example_store :: state where
  "example_store =
     \<lparr>workflows = Map.empty, executions = [], objects = [example_workflow, example_other],
      node_maps = [], goroutines = []\<rparr>"

definition example_submitted :: state where
  "example_submitted =
     \<lparr>workflows = [''demo'' \<mapsto> 0],
      executions = [\<lparr>we_Workflow = 0, we_Status = 0\<rparr>],
      objects = [example_workflow\<lparr>Status := example_status\<lparr>wf_Phase := WorkflowPending,
                                                              wf_StartedAt := Some 5\<rparr>\<rparr>,
                 example_other],
      node_maps = [], goroutines = [0]\<rparr>"

definition example_resubmitted :: state where
  "example_resubmitted =
     \<lparr>workflows = [''demo'' \<mapsto> 1],
      executions = [\<lparr>we_Workflow = 0, we_Status = 0\<rparr>, \<lparr>we_Workflow = 1, we_Status = 1\<rparr>],
      objects = [example_workflow\<lparr>Status := example_status\<lparr>wf_Phase := WorkflowPending,
                                                              wf_StartedAt := Some 5\<rparr>\<rparr>,
                 example_other\<lparr>Status := example_status\<lparr>wf_Phase := WorkflowPending,
                                                           wf_StartedAt := Some 6\<rparr>\<rparr>],
      node_maps = [], goroutines = [0, 1]\<rparr>"

definition example_snapshot :: Workflow where
  "example_snapshot =
     example_workflow\<lparr>Status := example_status\<lparr>wf_Phase := WorkflowRunning, wf_StartedAt := Some 5,
                                                  Nodes := Some 0\<rparr>\<rparr>"

definition example_running :: state where
  "example_running =
     \<lparr>workflows = [''demo'' \<mapsto> 0],
      executions = [\<lparr>we_Workflow = 0, we_Status = 0\<rparr>],
      objects = [example_snapshot, example_other],
      node_maps = [Map.empty], goroutines = [0]\<rparr>"

definition example_read :: state where
  "example_read = example_running\<lparr>node_maps := [Map.empty, Map.empty]\<rparr>"

definition example_node :: NodeStatus where
  "example_node =
     \<lparr>ID = ''demo/main'', node_Name = ''main'', DisplayName = ''main'', Type = NodeTypePod,
      Phase = NodeSucceeded, Message = [], StartedAt = Some 1, FinishedAt = Some 2,
      HostNodeName = ''argo-demo-main'', node_Outputs = Some (logs_outputs ''hello'')\<rparr>"

definition example_written :: state where
  "example_written = example_running\<lparr>node_maps := [[''demo/main'' \<mapsto> example_node], Map.empty]\<rparr>"

text \<open>
  The runtimes of the examples: every container is created and started, and exits
  with code 0 or with code 1. The events of a unit of work on the container
  template at a node, for either exit code, and the error that the walk makes of
  exit code 1.
\<close>

definition example_runtimes :: "Runtime set" where
  "example_runtimes = {example_runtime (StatusCh 0), example_runtime (StatusCh 1)}"

definition example_leaf :: "Workflow \<Rightarrow> string \<Rightarrow> event list" where
  "example_leaf wflow nodeName =
     snd (executeContainerTemplate example_NodeID (example_runtime (StatusCh 0)) wflow nodeName
            example_template)"

definition example_failed_leaf :: "Workflow \<Rightarrow> string \<Rightarrow> event list" where
  "example_failed_leaf wflow nodeName =
     snd (executeContainerTemplate example_NodeID (example_runtime (StatusCh 1)) wflow nodeName
            example_template)"




















section \<open>Properties of the executor\<close>

lemmas exec_splits = option.splits sum.splits wait_result.splits list.splits if_splits

lemmas example_defs = example_container_def example_template_def example_status_def
  example_workflow_def example_runtime_def example_NodeID_def example_script_def

lemmas store_defs = example_other_def example_store_def example_submitted_def
  example_resubmitted_def example_snapshot_def example_running_def example_read_def
  example_node_def example_written_def

lemmas show_defs = show_int_def show_nat.simps digit_char_def

subsection \<open>Environment variables\<close>

lemma append_envs_map:
  "append_envs acc es = acc @ map (\<lambda>e. env_Name e @ ''='' @ env_Value e) es"
  by (induction es arbitrary: acc) (simp_all add: format_env_def)

lemma find_prefix_append:
  "find P xs = Some x \<Longrightarrow> find P (xs @ ys) = Some x"
  by (induction xs) (auto split: if_splits)

text \<open>
  C8. The environment list built for a unit of work is exactly the three injected
  entries (workflow name, node name, template name, in this order), each of the
  form \<open>NAME=value\<close>, followed by one entry \<open>NAME=value\<close> for every variable
  the template declares, in document order (those of the container, then those of
  the script). A declared variable is only ever appended: whatever the template
  declares, also a variable carrying the name of an injected one, the first entry
  of the list for each injected name is the injected one with its value.
\<close>

theorem buildEnvVars_layout:
  "buildEnvVars tmpl wflow nodeName =
     [''ARGO_WORKFLOW_NAME='' @ wf_Name wflow,
      ''ARGO_NODE_NAME='' @ nodeName,
      ''ARGO_TEMPLATE_NAME='' @ tmpl_Name tmpl]
     @ map (\<lambda>e. env_Name e @ ''='' @ env_Value e)
         (case tmpl_Container tmpl of None \<Rightarrow> [] | Some c \<Rightarrow> Env c)
     @ map (\<lambda>e. env_Name e @ ''='' @ env_Value e)
         (case tmpl_Script tmpl of None \<Rightarrow> [] | Some sc \<Rightarrow> Env sc)
   \<and> find (prefix ''ARGO_WORKFLOW_NAME='') (buildEnvVars tmpl wflow nodeName)
       = Some (''ARGO_WORKFLOW_NAME='' @ wf_Name wflow)
   \<and> find (prefix ''ARGO_NODE_NAME='') (buildEnvVars tmpl wflow nodeName)
       = Some (''ARGO_NODE_NAME='' @ nodeName)
   \<and> find (prefix ''ARGO_TEMPLATE_NAME='') (buildEnvVars tmpl wflow nodeName)
       = Some (''ARGO_TEMPLATE_NAME='' @ tmpl_Name tmpl)"
proof -
  let ?inj = "[''ARGO_WORKFLOW_NAME='' @ wf_Name wflow,
      ''ARGO_NODE_NAME='' @ nodeName,
      ''ARGO_TEMPLATE_NAME='' @ tmpl_Name tmpl]"
  let ?decl = "map (\<lambda>e. env_Name e @ ''='' @ env_Value e)
         (case tmpl_Container tmpl of None \<Rightarrow> [] | Some c \<Rightarrow> Env c)
     @ map (\<lambda>e. env_Name e @ ''='' @ env_Value e)
         (case tmpl_Script tmpl of None \<Rightarrow> [] | Some sc \<Rightarrow> Env sc)"
  have eq: "buildEnvVars tmpl wflow nodeName = ?inj @ ?decl"
    by (simp add: buildEnvVars_def append_envs_map split: option.splits)
  have f1: "find (prefix ''ARGO_WORKFLOW_NAME='') (?inj @ ?decl) = Some (''ARGO_WORKFLOW_NAME='' @ wf_Name wflow)"
    by (rule find_prefix_append) simp
  have f2: "find (prefix ''ARGO_NODE_NAME='') (?inj @ ?decl) = Some (''ARGO_NODE_NAME='' @ nodeName)"
    by (rule find_prefix_append) simp
  have f3: "find (prefix ''ARGO_TEMPLATE_NAME='') (?inj @ ?decl) = Some (''ARGO_TEMPLATE_NAME='' @ tmpl_Name tmpl)"
    by (rule find_prefix_append) simp
  show ?thesis
    unfolding eq using f1 f2 f3 by (intro conjI refl)
qed

text \<open>
  The layout at a template that declares \<open>ARGO_WORKFLOW_NAME=spoof\<close> and \<open>A=1\<close>.
\<close>

theorem buildEnvVars_layout_witness:
  "buildEnvVars example_spoof example_workflow ''main'' =
     [''ARGO_WORKFLOW_NAME=demo'', ''ARGO_NODE_NAME=main'', ''ARGO_TEMPLATE_NAME=main'',
      ''ARGO_WORKFLOW_NAME=spoof'', ''A=1'']
   \<and> find (prefix ''ARGO_WORKFLOW_NAME='') (buildEnvVars example_spoof example_workflow ''main'')
       = Some ''ARGO_WORKFLOW_NAME=demo''"
  using buildEnvVars_layout [of example_spoof example_workflow "''main''"]
  by (simp add: example_spoof_def example_workflow_def example_container_def)


subsection \<open>The name of the container\<close>

lemma container_created_name:
  "Create cfg hc name \<in> set (snd (ExecuteContainer NodeID rt nodeName tmpl wflow))
     \<Longrightarrow> name = containerName wflow nodeName"
  by (auto simp: ExecuteContainer_def Let_def split: exec_splits)

lemma script_created_name:
  "Create cfg hc name \<in> set (snd (ExecuteScript NodeID rt nodeName tmpl wflow))
     \<Longrightarrow> name = containerName wflow nodeName"
  by (auto simp: ExecuteScript_def Let_def split: exec_splits)

lemma created_name:
  assumes "exec = ExecuteContainer \<or> exec = ExecuteScript"
    and "Create cfg hc name \<in> set (snd (exec NodeID rt nodeName tmpl wflow))"
  shows "name = containerName wflow nodeName"
  using assms container_created_name script_created_name by blast

text \<open>
  C9, as the code has it. Only the dot is replaced, by a hyphen; brackets, which the
  node names of steps contain, stay. Two node names that differ only in a dot
  against a hyphen therefore give the same container name, and the name of a step
  node keeps its brackets, which no container runtime accepts in a name.
\<close>

theorem container_name_counterexample:
  "''main.a.b'' \<noteq> ''main.a-b''
   \<and> containerName example_workflow ''main.a.b'' = containerName example_workflow ''main.a-b''
   \<and> containerName example_workflow ''main[0].a'' = ''argo-demo-main[0]-a''"
  by (simp add: containerName_def ReplaceAll_def example_defs)

lemma dot_to_hyphen_eq:
  "((if a = CHR ''.'' then CHR ''-'' else a) = (if b = CHR ''.'' then CHR ''-'' else b))
     = (a = b \<or> {a, b} = {CHR ''.'', CHR ''-''})"
  by (auto simp: doubleton_eq_iff)

text \<open>
  C9, amended. Let the workflow name and the node names consist of dots and of
  characters the runtime allows in a name, the hyphen and the letters of the prefix
  among them. Whenever either method creates a container, it does so under the name
  \<open>argo-<workflow name>-<node name>\<close> with every dot replaced by a hyphen; that
  name consists of allowed characters only and holds no dot. Two nodes of the same
  workflow receive the same container name exactly when their node names have the
  same length and differ only at positions where one has a dot and the other a
  hyphen; node names that differ anywhere else receive distinct container names.
\<close>

theorem container_name_of_node:
  assumes "exec1 = ExecuteContainer \<or> exec1 = ExecuteScript"
    and "exec2 = ExecuteContainer \<or> exec2 = ExecuteScript"
    and "Create cfg1 hc1 name1 \<in> set (snd (exec1 NodeID rt1 nodeName1 tmpl1 wflow))"
    and "Create cfg2 hc2 name2 \<in> set (snd (exec2 NodeID rt2 nodeName2 tmpl2 wflow))"
    and "CHR ''-'' \<in> allowed" and "set ''argo'' \<subseteq> allowed"
    and "set (wf_Name wflow) \<union> set nodeName1 \<union> set nodeName2 \<subseteq> insert (CHR ''.'') allowed"
  shows "name1 = ''argo-'' @ map (\<lambda>c. if c = CHR ''.'' then CHR ''-'' else c) (wf_Name wflow)
                 @ ''-'' @ map (\<lambda>c. if c = CHR ''.'' then CHR ''-'' else c) nodeName1
       \<and> set name1 \<subseteq> allowed - {CHR ''.''}
       \<and> (name1 = name2) =
           (length nodeName1 = length nodeName2
            \<and> (\<forall>i<length nodeName1. nodeName1 ! i = nodeName2 ! i
                    \<or> {nodeName1 ! i, nodeName2 ! i} = {CHR ''.'', CHR ''-''}))"
proof -
  let ?f = "\<lambda>c. if c = CHR ''.'' then CHR ''-'' else c"
  have n1: "name1 = containerName wflow nodeName1"
    using assms(1,3) by (rule created_name [where exec = exec1])
  have n2: "name2 = containerName wflow nodeName2"
    using assms(2,4) by (rule created_name [where exec = exec2])
  have form: "containerName wflow n = ''argo-'' @ map ?f (wf_Name wflow) @ ''-'' @ map ?f n" for n
    by (simp add: containerName_def ReplaceAll_def)
  have img: "?f ` (insert (CHR ''.'') allowed) \<subseteq> allowed - {CHR ''.''}"
    using assms(5) by auto
  have "set (map ?f (wf_Name wflow)) \<subseteq> allowed - {CHR ''.''}"
    "set (map ?f nodeName1) \<subseteq> allowed - {CHR ''.''}"
    using assms(7) img by auto
  moreover have "set ''argo-'' \<subseteq> allowed - {CHR ''.''}" "set ''-'' \<subseteq> allowed - {CHR ''.''}"
    using assms(5,6) by auto
  ultimately have valid: "set name1 \<subseteq> allowed - {CHR ''.''}"
    unfolding n1 form by (simp only: set_append Un_subset_iff)
  have "(name1 = name2) = (map ?f nodeName1 = map ?f nodeName2)"
    unfolding n1 n2 form by simp
  also have "\<dots> = (length nodeName1 = length nodeName2
            \<and> (\<forall>i<length nodeName1. ?f (nodeName1 ! i) = ?f (nodeName2 ! i)))"
    by (auto simp: list_eq_iff_nth_eq)
  also have "\<dots> = (length nodeName1 = length nodeName2
            \<and> (\<forall>i<length nodeName1. nodeName1 ! i = nodeName2 ! i
                    \<or> {nodeName1 ! i, nodeName2 ! i} = {CHR ''.'', CHR ''-''}))"
    by (simp only: dot_to_hyphen_eq)
  finally have iff: "(name1 = name2) = (length nodeName1 = length nodeName2
            \<and> (\<forall>i<length nodeName1. nodeName1 ! i = nodeName2 ! i
                    \<or> {nodeName1 ! i, nodeName2 ! i} = {CHR ''.'', CHR ''-''}))" .
  from n1 form have "name1 = ''argo-'' @ map ?f (wf_Name wflow) @ ''-'' @ map ?f nodeName1" by simp
  with valid iff show ?thesis by (intro conjI)
qed

text \<open>
  The node names \<open>main.task-a\<close> and \<open>main.task-b\<close> of one workflow, one run by
  each method.
\<close>

theorem container_name_of_node_witness:
  "Create \<lparr>cfg_Image = ''alpine'', cfg_Cmd = [''echo'', ''hello''],
            cfg_Env = buildEnvVars example_template example_workflow ''main.task-a'',
            cfg_WorkingDir = [], AttachStdout = True, AttachStderr = True, Tty = False\<rparr>
          \<lparr>AutoRemove = False, Mounts = []\<rparr> ''argo-demo-main-task-a''
     \<in> set (snd (ExecuteContainer example_NodeID (example_runtime (StatusCh 0)) ''main.task-a''
                    example_template example_workflow))
   \<and> Create \<lparr>cfg_Image = ''python'', cfg_Cmd = [''python'', ''-c'', ''print(1)''],
            cfg_Env = buildEnvVars (example_script [''python'']) example_workflow ''main.task-b'',
            cfg_WorkingDir = [], AttachStdout = True, AttachStderr = True, Tty = False\<rparr>
          \<lparr>AutoRemove = False, Mounts = []\<rparr> ''argo-demo-main-task-b''
     \<in> set (snd (ExecuteScript example_NodeID (example_runtime (StatusCh 0)) ''main.task-b''
                    (example_script [''python'']) example_workflow))
   \<and> set ''demo'' \<union> set ''main.task-a'' \<union> set ''main.task-b'' \<subseteq> insert (CHR ''.'') example_allowed
   \<and> set ''argo-demo-main-task-a'' \<subseteq> example_allowed - {CHR ''.''}
   \<and> ''argo-demo-main-task-a'' \<noteq> ''argo-demo-main-task-b''"
proof -
  let ?c1 = "\<lparr>cfg_Image = ''alpine'', cfg_Cmd = [''echo'', ''hello''],
            cfg_Env = buildEnvVars example_template example_workflow ''main.task-a'',
            cfg_WorkingDir = [], AttachStdout = True, AttachStderr = True, Tty = False\<rparr>"
  let ?c2 = "\<lparr>cfg_Image = ''python'', cfg_Cmd = [''python'', ''-c'', ''print(1)''],
            cfg_Env = buildEnvVars (example_script [''python'']) example_workflow ''main.task-b'',
            cfg_WorkingDir = [], AttachStdout = True, AttachStderr = True, Tty = False\<rparr>"
  let ?h = "\<lparr>AutoRemove = False, Mounts = []\<rparr>"
  have a: "Create ?c1 ?h ''argo-demo-main-task-a''
     \<in> set (snd (ExecuteContainer example_NodeID (example_runtime (StatusCh 0)) ''main.task-a''
                    example_template example_workflow))"
    by (simp add: ExecuteContainer_def Let_def example_defs containerName_def ReplaceAll_def)
  have b: "Create ?c2 ?h ''argo-demo-main-task-b''
     \<in> set (snd (ExecuteScript example_NodeID (example_runtime (StatusCh 0)) ''main.task-b''
                    (example_script [''python'']) example_workflow))"
    by (simp add: ExecuteScript_def Let_def example_defs containerName_def ReplaceAll_def)
  have e: "ExecuteContainer = ExecuteContainer \<or> ExecuteContainer = ExecuteScript"
    "ExecuteScript = ExecuteContainer \<or> ExecuteScript = ExecuteScript" by simp_all
  have k: "CHR ''-'' \<in> example_allowed" "set ''argo'' \<subseteq> example_allowed"
    by (simp_all add: example_allowed_def)
  have w: "set (wf_Name example_workflow) \<union> set ''main.task-a'' \<union> set ''main.task-b''
             \<subseteq> insert (CHR ''.'') example_allowed"
    by (simp add: example_allowed_def example_workflow_def)
  from container_name_of_node [where ?exec1.0 = ExecuteContainer and ?exec2.0 = ExecuteScript,
      OF e a b k w]
  have "set ''argo-demo-main-task-a'' \<subseteq> example_allowed - {CHR ''.''}"
    and "(''argo-demo-main-task-a'' = ''argo-demo-main-task-b'') =
           (length ''main.task-a'' = length ''main.task-b''
            \<and> (\<forall>i<length ''main.task-a''. ''main.task-a'' ! i = ''main.task-b'' ! i
                    \<or> {''main.task-a'' ! i, ''main.task-b'' ! i} = {CHR ''.'', CHR ''-''}))"
    by blast+
  with a b w show ?thesis by (simp add: example_workflow_def)
qed


subsection \<open>Exit codes\<close>

lemma container_exit_status:
  assumes "ExecuteContainer NodeID rt nodeName tmpl wflow = (res, calls)"
    and "Wait respID \<in> set calls"
    and "ContainerWait rt respID = StatusCh code"
  shows "\<exists>ns. res = Returned (Some ns) None
            \<and> Phase ns = (if code = 0 then NodeSucceeded else NodeFailed)
            \<and> Message ns = (if code = 0 then [] else ''container exited with code '' @ show_int (sint code))"
  using assms
  by (auto simp: ExecuteContainer_def Let_def initial_status_def split: exec_splits)

lemma script_exit_status:
  assumes "ExecuteScript NodeID rt nodeName tmpl wflow = (res, calls)"
    and "Wait respID \<in> set calls"
    and "ContainerWait rt respID = StatusCh code"
  shows "\<exists>ns. res = Returned (Some ns) None
            \<and> Phase ns = (if code = 0 then NodeSucceeded else NodeFailed)
            \<and> Message ns = (if code = 0 then [] else ''script exited with code '' @ show_int (sint code))"
  using assms
  by (auto simp: ExecuteScript_def Let_def initial_status_def split: exec_splits)

text \<open>
  C5, as the code has it. A container that exits with code 1 gets the message
  \<open>container exited with code 1\<close>, which is not the text \<open>exited with code 1\<close>.
\<close>

theorem exit_message_counterexample:
  "fst (ExecuteContainer example_NodeID (example_runtime (StatusCh 1)) ''main''
          example_template example_workflow)
     = Returned (Some (initial_status example_NodeID (example_runtime (StatusCh 1)) example_workflow ''main''
          \<lparr>FinishedAt := Some 2, Phase := NodeFailed, Message := ''container exited with code 1'',
            node_Outputs := Some (logs_outputs ''hello'')\<rparr>)) None
   \<and> ''container exited with code 1'' \<noteq> ''exited with code 1''"
  by (simp add: ExecuteContainer_def Let_def example_defs show_defs)

text \<open>
  C5, amended. When the wait of a unit of work delivers an exit code, the method
  returns a node status and no error; exit code 0 gives phase Succeeded and an
  empty message, every other exit code \<open>N\<close> gives phase Failed and the message
  \<open>container exited with code N\<close> from \<^verbatim>\<open>ExecuteContainer\<close>,
  \<open>script exited with code N\<close> from \<^verbatim>\<open>ExecuteScript\<close>, with \<open>N\<close> in signed decimal.
\<close>

theorem exit_code_phase_and_message:
  assumes "exec = ExecuteContainer \<and> kind = ''container'' \<or> exec = ExecuteScript \<and> kind = ''script''"
    and "exec NodeID rt nodeName tmpl wflow = (res, calls)"
    and "Wait respID \<in> set calls"
    and "ContainerWait rt respID = StatusCh code"
  shows "\<exists>ns. res = Returned (Some ns) None
            \<and> Phase ns = (if code = 0 then NodeSucceeded else NodeFailed)
            \<and> Message ns = (if code = 0 then [] else kind @ '' exited with code '' @ show_int (sint code))"
  using assms(1)
proof (elim disjE conjE)
  assume "exec = ExecuteContainer" "kind = ''container''"
  with container_exit_status [of NodeID rt nodeName tmpl wflow res calls respID code] assms(2-4)
  show ?thesis by (cases "code = 0") auto
next
  assume "exec = ExecuteScript" "kind = ''script''"
  with script_exit_status [of NodeID rt nodeName tmpl wflow res calls respID code] assms(2-4)
  show ?thesis by (cases "code = 0") auto
qed

theorem exit_code_phase_and_message_witness:
  "Wait ''c0'' \<in> set (snd (ExecuteScript example_NodeID (example_runtime (StatusCh 3)) ''main''
                              (example_script [''python'']) example_workflow))
   \<and> ContainerWait (example_runtime (StatusCh 3)) ''c0'' = StatusCh 3
   \<and> (\<exists>ns. fst (ExecuteScript example_NodeID (example_runtime (StatusCh 3)) ''main''
                    (example_script [''python'']) example_workflow) = Returned (Some ns) None
          \<and> Phase ns = NodeFailed
          \<and> Message ns = ''script exited with code 3'')"
proof -
  let ?r = "ExecuteScript example_NodeID (example_runtime (StatusCh 3)) ''main''
              (example_script [''python'']) example_workflow"
  have w: "Wait ''c0'' \<in> set (snd ?r)"
    by (simp add: ExecuteScript_def Let_def example_defs)
  have c: "ContainerWait (example_runtime (StatusCh 3)) ''c0'' = StatusCh 3"
    by (simp add: example_runtime_def)
  have "\<exists>ns. fst ?r = Returned (Some ns) None
          \<and> Phase ns = (if (3 :: 64 word) = 0 then NodeSucceeded else NodeFailed)
          \<and> Message ns = (if (3 :: 64 word) = 0 then []
                           else ''script'' @ '' exited with code '' @ show_int (sint (3 :: 64 word)))"
    by (rule exit_code_phase_and_message [where exec = ExecuteScript and calls = "snd ?r"
          and respID = "''c0''" and rt = "example_runtime (StatusCh 3)" and NodeID = example_NodeID
          and nodeName = "''main''" and tmpl = "example_script [''python'']" and wflow = example_workflow])
       (simp_all add: w c)
  then show ?thesis using w c by (simp add: show_defs)
qed

subsection \<open>Removal of the container\<close>

text \<open>
  When the select statement falls through, the last call is the forced removal, and
  what the removal answers has no influence on what the method returns.
\<close>

lemma removal_outcome_ignored_container:
  "fst (ExecuteContainer NodeID (rt\<lparr>ContainerRemove := r\<rparr>) nodeName tmpl wflow)
     = fst (ExecuteContainer NodeID rt nodeName tmpl wflow)"
  by (simp add: ExecuteContainer_def initial_status_def
      cong: option.case_cong sum.case_cong wait_result.case_cong list.case_cong)

lemma removal_outcome_ignored_script:
  "fst (ExecuteScript NodeID (rt\<lparr>ContainerRemove := r\<rparr>) nodeName tmpl wflow)
     = fst (ExecuteScript NodeID rt nodeName tmpl wflow)"
  by (simp add: ExecuteScript_def initial_status_def
      cong: option.case_cong sum.case_cong wait_result.case_cong list.case_cong)

lemma container_removed_after_exit:
  assumes "ExecuteContainer NodeID rt nodeName tmpl wflow = (res, calls)"
    and "Wait respID \<in> set calls"
    and "ContainerWait rt respID = StatusCh code"
  shows "last calls = Remove respID True"
  using assms by (auto simp: ExecuteContainer_def Let_def split: exec_splits)

lemma script_removed_after_exit:
  assumes "ExecuteScript NodeID rt nodeName tmpl wflow = (res, calls)"
    and "Wait respID \<in> set calls"
    and "ContainerWait rt respID = StatusCh code"
  shows "last calls = Remove respID True"
  using assms by (auto simp: ExecuteScript_def Let_def split: exec_splits)

text \<open>
  C3, at a wait error. The runtime of the example creates and starts the container
  \<open>c0\<close> and its wait delivers the error \<open>connection lost\<close>. Both methods return
  at once with the node status in phase Error and the error: after the create call
  they have called start and wait and nothing else, so the container \<open>c0\<close> is
  never removed.
\<close>

theorem wait_error_skips_removal:
  "fst (ExecuteContainer example_NodeID (example_runtime (ErrCh (Some ''connection lost''))) ''main''
          example_template example_workflow)
     = Returned (Some (initial_status example_NodeID (example_runtime (ErrCh (Some ''connection lost'')))
                         example_workflow ''main''
                       \<lparr>Phase := NodeError, Message := ''connection lost''\<rparr>))
                (Some ''connection lost'')
   \<and> tl (snd (ExecuteContainer example_NodeID (example_runtime (ErrCh (Some ''connection lost''))) ''main''
                example_template example_workflow))
     = [Start ''c0'', Wait ''c0'']
   \<and> tl (snd (ExecuteScript example_NodeID (example_runtime (ErrCh (Some ''connection lost''))) ''main''
                (example_script [''sh'']) example_workflow))
     = [Start ''c0'', Wait ''c0'']"
  by (simp add: ExecuteContainer_def ExecuteScript_def Let_def example_defs)

subsection \<open>The command of a script\<close>

text \<open>
  C10. For a template that has a script, \<^verbatim>\<open>ExecuteScript\<close> panics exactly when the
  script's command list is empty (the first element is read by index with no
  check of the length); with a non-empty list it returns.
\<close>

theorem script_empty_command_panics:
  "tmpl_Script tmpl = Some sc \<Longrightarrow>
     (fst (ExecuteScript NodeID rt nodeName tmpl wflow) = Panicked) = (Command sc = [])"
  by (simp add: ExecuteScript_def Let_def split: exec_splits)

theorem script_empty_command_panics_witness:
  "tmpl_Script (example_script []) = Some \<lparr>Image = ''python'', Command = [], Args = [], WorkingDir = [],
                          Env = [], VolumeMounts = [], Source = ''print(1)''\<rparr>
   \<and> fst (ExecuteScript example_NodeID (example_runtime (StatusCh 0)) ''main'' (example_script [])
            example_workflow) = Panicked"
  using script_empty_command_panics [of "example_script []" _ example_NodeID "example_runtime (StatusCh 0)"
          "''main''" example_workflow]
  by (simp add: example_script_def)

section \<open>Properties of the controller\<close>

lemmas ctl_defs = SubmitWorkflow_def GetWorkflow_def snapshot_def DeepCopy_def deref_def
  update_status_def Let_def

subsection \<open>Submission\<close>

text \<open>
  C1, as the code has it. Two workflows named \<open>demo\<close> are submitted one after the
  other. The second submission returns no error, and the registry entry of
  \<open>demo\<close>, which designated the first run, designates the second afterwards: a
  read of \<open>demo\<close> returns the second workflow.
\<close>

theorem duplicate_submit_counterexample:
  "SubmitWorkflow 5 0 example_store = Some (None, example_submitted)
   \<and> SubmitWorkflow 6 1 example_submitted = Some (None, example_resubmitted)
   \<and> workflows example_submitted ''demo'' = Some 0
   \<and> workflows example_resubmitted ''demo'' = Some 1
   \<and> GetWorkflow ''demo'' example_resubmitted
       = Some (Inr (example_other\<lparr>Status := example_status\<lparr>wf_Phase := WorkflowPending,
                                                                wf_StartedAt := Some 6\<rparr>\<rparr>),
               example_resubmitted)"
  by (simp add: ctl_defs store_defs example_defs)

text \<open>
  C1, amended. Every submission of a workflow object succeeds. It registers a new
  execution of that object under the workflow's name, in place of whatever was
  registered under the name, and leaves the entries of all other names as they
  were; the phase of the workflow becomes Pending, with the start time, when the
  document carried no phase, and is kept otherwise; no other object and no node
  map changes. The walk is started as a goroutine and no event of it has been
  applied when the submission returns.
\<close>

theorem SubmitWorkflow_registers:
  assumes "p < length (objects st)"
  shows "\<exists>st'. SubmitWorkflow now p st = Some (None, st')
     \<and> workflows st' = (workflows st)(wf_Name (objects st ! p) \<mapsto> length (executions st))
     \<and> executions st' = executions st @ [\<lparr>we_Workflow = p, we_Status = p\<rparr>]
     \<and> objects st' = (objects st)[p := (objects st ! p)\<lparr>Status :=
           (if wf_Phase (Status (objects st ! p)) = []
            then (Status (objects st ! p))\<lparr>wf_Phase := WorkflowPending, wf_StartedAt := Some now\<rparr>
            else Status (objects st ! p))\<rparr>]
     \<and> node_maps st' = node_maps st
     \<and> goroutines st' = goroutines st @ [length (executions st)]"
  using assms by (simp add: ctl_defs list_update_same_conv)

theorem SubmitWorkflow_registers_witness:
  "0 < length (objects example_store)
   \<and> (\<exists>st'. SubmitWorkflow 5 0 example_store = Some (None, st')
          \<and> workflows st' ''demo'' = Some 0
          \<and> map (\<lambda>w. wf_Phase (Status w)) (objects st') = [WorkflowPending, []]
          \<and> goroutines st' = [0])"
proof -
  have h: "0 < length (objects example_store)" by (simp add: example_store_def)
  from SubmitWorkflow_registers [OF h, of 5] obtain st' where
    "SubmitWorkflow 5 0 example_store = Some (None, st')"
    "workflows st' = (workflows example_store)(wf_Name (objects example_store ! 0) \<mapsto> length (executions example_store))"
    "objects st' = (objects example_store)[0 := (objects example_store ! 0)\<lparr>Status :=
           (if wf_Phase (Status (objects example_store ! 0)) = []
            then (Status (objects example_store ! 0))\<lparr>wf_Phase := WorkflowPending, wf_StartedAt := Some 5\<rparr>
            else Status (objects example_store ! 0))\<rparr>]"
    "goroutines st' = goroutines example_store @ [length (executions example_store)]"
    by blast
  then have "SubmitWorkflow 5 0 example_store = Some (None, st')
          \<and> workflows st' ''demo'' = Some 0
          \<and> map (\<lambda>w. wf_Phase (Status w)) (objects st') = [WorkflowPending, []]
          \<and> goroutines st' = [0]"
    by (simp add: store_defs example_defs)
  then have "\<exists>st'. SubmitWorkflow 5 0 example_store = Some (None, st')
          \<and> workflows st' ''demo'' = Some 0
          \<and> map (\<lambda>w. wf_Phase (Status w)) (objects st') = [WorkflowPending, []]
          \<and> goroutines st' = [0]" by (rule exI)
  with h show ?thesis by (rule conjI)
qed

subsection \<open>Reading a run\<close>

text \<open>
  C2, in the middle of a walk. The run \<open>demo\<close> has been submitted and its walk has
  set the phase and made the node map. \<^verbatim>\<open>GetWorkflow\<close> returns \<open>example_snapshot\<close>,
  and so does \<^verbatim>\<open>ListWorkflows\<close>; the deep copy made of the node map is dropped and the
  returned workflow carries the reference of the stored node map. Through the returned workflow the
  node \<open>demo/main\<close> is not there at first, and is there once the walk has written
  it.
\<close>

theorem snapshot_shares_node_map:
  "apply_events 0 [SetRunning, InitNodes] example_submitted = Some example_running
   \<and> GetWorkflow ''demo'' example_running = Some (Inr example_snapshot, example_read)
   \<and> ListWorkflows [''demo''] example_running = Some ([example_snapshot], example_read)
   \<and> apply_event 0 (NodeWrite ''demo/main'' example_node) example_read = Some example_written
   \<and> lookup_node example_read example_snapshot ''demo/main'' = None
   \<and> lookup_node example_written example_snapshot ''demo/main'' = Some example_node"
  by (simp add: ctl_defs store_defs example_defs lookup_node_def nodes_of_def)

text \<open>
  The events of this scenario are those of a walk of the workflow: the walk of
  \<open>demo\<close> against a runtime in which the container exits with code 0 writes
  \<open>example_node\<close> under \<open>demo/main\<close> as its last event before it marks the run.
\<close>

lemma example_leaf_events:
  "executeContainerTemplate example_NodeID (example_runtime (StatusCh 0)) example_workflow ''main''
      example_template
   = (Ret None,
      map Call (snd (ExecuteContainer example_NodeID (example_runtime (StatusCh 0)) ''main''
                       example_template example_workflow))
      @ [NodeWrite ''demo/main'' example_node])"
  by (simp add: executeContainerTemplate_def ExecuteContainer_def Let_def example_defs
      initial_status_def containerName_def ReplaceAll_def example_node_def)

lemma example_walk:
  "executeWorkflow example_runtimes example_NodeID example_workflow
     ([SetRunning, InitNodes]
      @ (map Call (snd (ExecuteContainer example_NodeID (example_runtime (StatusCh 0)) ''main''
                          example_template example_workflow))
         @ [NodeWrite ''demo/main'' example_node])
      @ [MarkSucceeded 9]) True"
proof -
  let ?evs = "map Call (snd (ExecuteContainer example_NodeID (example_runtime (StatusCh 0)) ''main''
                          example_template example_workflow))
         @ [NodeWrite ''demo/main'' example_node]"
  have n: "Entrypoint (Spec example_workflow) = ''main''"
    by (simp add: example_workflow_def)
  have c: "tmpl_Container example_template \<noteq> None"
    by (simp add: example_template_def)
  have "executeTemplate example_runtimes example_NodeID example_workflow ''main'' example_template ?evs (Done None)"
    using c example_leaf_events by (rule container) (simp add: example_runtimes_def)
  then have t: "executeTemplate example_runtimes example_NodeID example_workflow (Entrypoint (Spec example_workflow))
                  example_template ?evs (Done None)"
    by (simp only: n)
  have e: "Entrypoint (Spec example_workflow) \<noteq> []"
    by (simp add: n)
  have f: "find_template (Templates (Spec example_workflow)) (Entrypoint (Spec example_workflow))
             = Some example_template"
    by (simp add: example_workflow_def example_template_def find_template_def)
  show ?thesis
    by (rule walk_succeeded [OF e f t])
qed

text \<open>
  Reading again returns the same workflow value: a read changes the store only by
  the map that the deep copy allocated.
\<close>

lemma GetWorkflow_again:
  assumes "GetWorkflow name st = Some (r, st')"
  shows "\<exists>st''. GetWorkflow name st' = Some (r, st'')"
  using assms
  by (auto simp: ctl_defs nth_append split: option.splits if_splits Option.bind_splits)

subsection \<open>The status of a node whose wait failed\<close>

text \<open>
  Whenever the executor returns an error, \<^verbatim>\<open>executeContainerTemplate\<close> returns that
  error and its events are the runtime calls alone: nothing is written into the
  node map, whatever node status came with the error.
\<close>

lemma error_return_writes_nothing:
  assumes "ExecuteContainer NodeID rt nodeName tmpl wflow = (Returned nodeStatus (Some err), calls)"
  shows "executeContainerTemplate NodeID rt wflow nodeName tmpl = (Ret (Some err), map Call calls)"
  using assms by (simp add: executeContainerTemplate_def split: option.splits)

text \<open>
  C4, at a wait error. The wait of the container \<open>c0\<close> delivers the error
  \<open>connection lost\<close>. The executor returns the error together with a node status
  in phase Error; \<^verbatim>\<open>executeContainerTemplate\<close> returns
  the error, its events after the create call are the start and the wait, and the
  store of the running workflow is left as it was: the node status is not
  written.
\<close>

theorem wait_error_status_not_written:
  "fst (executeContainerTemplate example_NodeID (example_runtime (ErrCh (Some ''connection lost'')))
          example_workflow ''main'' example_template) = Ret (Some ''connection lost'')
   \<and> tl (snd (executeContainerTemplate example_NodeID (example_runtime (ErrCh (Some ''connection lost'')))
          example_workflow ''main'' example_template)) = [Call (Start ''c0''), Call (Wait ''c0'')]
   \<and> apply_events 0 (snd (executeContainerTemplate example_NodeID (example_runtime (ErrCh (Some ''connection lost'')))
          example_workflow ''main'' example_template)) example_running = Some example_running"
  by (simp add: executeContainerTemplate_def ExecuteContainer_def Let_def example_defs)

section \<open>Properties of the walk\<close>

subsection \<open>Interleavings\<close>

lemma merge_of_subset:
  "merge_of trs tr \<Longrightarrow> ev \<in> set tr \<Longrightarrow> \<exists>k<length trs. ev \<in> set (trs ! k)"
proof (induction arbitrary: ev rule: merge_of.induct)
  case (merge_done trs)
  then show ?case by simp
next
  case (merge_pick k trs x t tr)
  show ?case
  proof (cases "ev = x")
    case True
    with merge_pick.hyps show ?thesis by (auto intro!: exI [of _ k])
  next
    case False
    with merge_pick.prems have "ev \<in> set tr" by simp
    from merge_pick.IH [OF this] obtain k' where k': "k' < length trs" "ev \<in> set (trs[k := t] ! k')"
      by auto
    show ?thesis
    proof (cases "k' = k")
      case True
      with k' merge_pick.hyps have "ev \<in> set (trs ! k)" by simp
      with merge_pick.hyps show ?thesis by blast
    next
      case False
      with k' show ?thesis by auto
    qed
  qed
qed


lemma merge_of_shift: "merge_of trs tr \<Longrightarrow> merge_of ([] # trs) tr"
proof (induction rule: merge_of.induct)
  case (merge_done trs)
  then show ?case by (simp add: merge_of.merge_done)
next
  case (merge_pick k trs x t tr)
  have "merge_of (([] # trs)[Suc k := t]) tr" using merge_pick.IH by simp
  then show ?case
    using merge_pick.hyps merge_of.merge_pick [of "Suc k" "[] # trs" x t tr] by simp
qed

lemma merge_of_first: "merge_of trs tr \<Longrightarrow> merge_of (t # trs) (t @ tr)"
proof (induction t)
  case Nil
  then show ?case by (simp add: merge_of_shift)
next
  case (Cons x t)
  then show ?case
    using merge_of.merge_pick [of 0 "(x # t) # trs" x t "t @ tr"] by simp
qed

subsection \<open>The goroutines of a group\<close>

lemma length_step_children [simp]: "length (step_children n i ss) = length ss"
  by (simp add: step_children_def)

lemma length_task_children [simp]: "length (task_children n ts) = length ts"
  by (simp add: task_children_def)

lemma nth_step_children:
  "j < length ss \<Longrightarrow> step_children n i ss ! j = step_child n i (j, ss ! j)"
  by (simp add: step_children_def nth_enumerate_eq)

lemma nth_task_children:
  "k < length ts \<Longrightarrow> task_children n ts ! k = task_child n (k, ts ! k)"
  by (simp add: task_children_def nth_enumerate_eq)

lemma step_children_label:
  "c \<in> set (step_children n i ss) \<Longrightarrow> \<exists>j<length ss. child_label c = Step n i j"
  by (auto simp: in_set_conv_nth nth_step_children step_child_def)

lemma step_children_node:
  "c \<in> set (step_children n i ss) \<Longrightarrow> length n < length (child_node c)"
  by (auto simp: in_set_conv_nth nth_step_children step_child_def)

lemma task_children_label:
  "c \<in> set (task_children n ts) \<Longrightarrow> \<exists>k<length ts. child_label c = Task n k"
  by (auto simp: in_set_conv_nth nth_task_children task_child_def)

lemma task_children_node:
  "c \<in> set (task_children n ts) \<Longrightarrow> length n < length (child_node c)"
  by (auto simp: in_set_conv_nth nth_task_children task_child_def)

subsection \<open>Where the events of an invocation come from\<close>

lemma container_events_plain:
  "ev \<in> set (snd (executeContainerTemplate NodeID rt wflow nodeName tmpl)) \<Longrightarrow> goroutine_of ev = None"
  by (auto simp: executeContainerTemplate_def split: prod.splits exec_result.splits option.splits)

lemma script_events_plain:
  "ev \<in> set (snd (executeScriptTemplate NodeID rt wflow nodeName tmpl)) \<Longrightarrow> goroutine_of ev = None"
  by (auto simp: executeScriptTemplate_def split: prod.splits exec_result.splits option.splits)

lemma below_append [simp]: "below n (tr1 @ tr2) = (below n tr1 \<and> below n tr2)"
  by (auto simp: below_def)

lemma below_Nil [simp]: "below n []"
  by (simp add: below_def)

lemma owned_prefix: "owned c tr \<Longrightarrow> prefix tr' tr \<Longrightarrow> owned c tr'"
  by (auto simp: owned_def dest: set_mono_prefix)

lemma below_plain: "(\<And>ev. ev \<in> set tr \<Longrightarrow> goroutine_of ev = None) \<Longrightarrow> below n tr"
  by (auto simp: below_def)

lemma nesting:
  "executeTemplate R NodeID wflow n tmpl tr r \<Longrightarrow> below n tr"
  "executeGroups R NodeID wflow n i gs tr r \<Longrightarrow> below n tr"
  "fan R NodeID wflow cs tr rs \<Longrightarrow> (\<forall>ev\<in>set tr. \<exists>c\<in>set cs. owned c [ev])"
  "fan_out R NodeID wflow cs outs \<Longrightarrow> length outs = length cs \<and> (\<forall>k<length cs. owned (cs ! k) (fst (outs ! k)))"
  "go R NodeID wflow c tr fin \<Longrightarrow> owned c tr"
proof (induction rule: executeTemplate_executeGroups_fan_fan_out_go.inducts)
  case (container tmpl rt nodeName err evs)
  then show ?case
    using container_events_plain [of _ NodeID rt wflow nodeName tmpl] by (auto intro: below_plain)
next
  case (container_running tmpl rt nodeName res evs evs')
  then show ?case
    using container_events_plain [of _ NodeID rt wflow nodeName tmpl]
    by (auto intro!: below_plain dest: set_mono_prefix)
next
  case (script tmpl rt nodeName err evs)
  then show ?case
    using script_events_plain [of _ NodeID rt wflow nodeName tmpl] by (auto intro: below_plain)
next
  case (script_running tmpl rt nodeName res evs evs')
  then show ?case
    using script_events_plain [of _ NodeID rt wflow nodeName tmpl]
    by (auto intro!: below_plain dest: set_mono_prefix)
next
  case (steps tmpl groups nodeName tr r)
  then show ?case by simp
next
  case (dag tmpl d nodeName tr errs)
  then show ?case
    by (fastforce simp: below_def owned_def dest: task_children_label task_children_node)
next
  case (dag_pending tmpl d nodeName tr)
  then show ?case
    by (fastforce simp: below_def owned_def dest: task_children_label task_children_node)
next
  case (unsupported tmpl nodeName)
  then show ?case by simp
next
  case (not_started nodeName tmpl)
  then show ?case by simp
next
  case (groups_end nodeName i)
  then show ?case by simp
next
  case (groups_next nodeName i g tr1 gs tr2 r)
  then show ?case
    by (fastforce simp: below_def owned_def dest: step_children_label step_children_node)
next
  case (groups_error nodeName i g tr1 err errs gs)
  then show ?case
    by (fastforce simp: below_def owned_def dest: step_children_label step_children_node)
next
  case (groups_waiting nodeName i g tr1 gs)
  then show ?case
    by (fastforce simp: below_def owned_def dest: step_children_label step_children_node)
next
  case (fan_joined cs outs tr)
  show ?case
  proof
    fix ev assume "ev \<in> set tr"
    with merge_of_subset [OF \<open>merge_of (map fst outs) tr\<close>] obtain k where
      "k < length (map fst outs)" "ev \<in> set (map fst outs ! k)" by blast
    then have k: "k < length outs" "ev \<in> set (fst (outs ! k))" by simp_all
    with fan_joined have "owned (cs ! k) (fst (outs ! k))" "cs ! k \<in> set cs" by auto
    with k show "\<exists>c\<in>set cs. owned c [ev]" by (auto simp: owned_def)
  qed
next
  case (fan_waiting cs outs tr)
  show ?case
  proof
    fix ev assume "ev \<in> set tr"
    with merge_of_subset [OF \<open>merge_of (map fst outs) tr\<close>] obtain k where
      "k < length (map fst outs)" "ev \<in> set (map fst outs ! k)" by blast
    then have k: "k < length outs" "ev \<in> set (fst (outs ! k))" by simp_all
    with fan_waiting have "owned (cs ! k) (fst (outs ! k))" "cs ! k \<in> set cs" by auto
    with k show "\<exists>c\<in>set cs. owned c [ev]" by (auto simp: owned_def)
  qed
next
  case fan_out_nil
  then show ?case by simp
next
  case (fan_out_cons c tr fin cs outs)
  then show ?case by (auto simp: nth_Cons split: nat.splits)
next
  case (go_notfound c)
  then show ?case by (simp add: owned_def)
next
  case (go_ok c tmpl tr)
  then show ?case by (auto simp: owned_def below_def)
next
  case (go_error c tmpl tr err)
  then show ?case by (auto simp: owned_def below_def)
next
  case (go_running c tmpl tr)
  then show ?case by (auto simp: owned_def below_def)
next
  case (go_not_finished c tr fin tr')
  then show ?case by (auto intro: owned_prefix)
qed

subsection \<open>What a finished group has done\<close>







lemma fan_tasks_labels:
  assumes "fan R NodeID wflow (task_children n ts) tr rs"
    and "ev \<in> set tr" and "goroutine_of ev = Some (Task n k)"
  shows "k < length ts"
proof -
  from nesting(3) [OF assms(1)] assms(2) obtain c where
    c: "c \<in> set (task_children n ts)" "owned c [ev]" by blast
  from c(2) assms(3) have "Task n k = child_label c \<or> length (child_node c) \<le> length n"
    by (auto simp: owned_def)
  with task_children_node [OF c(1)] task_children_label [OF c(1)] show ?thesis by auto
qed





subsection \<open>Completion and intermediate states\<close>

text \<open>
  Whatever the goroutines of a group do, failing or not, once each of them has
  finished the group is joined: no goroutine is cancelled because of another.
\<close>

lemma merge_of_concat: "merge_of trs (concat trs)"
proof (induction trs)
  case Nil
  then show ?case by (simp add: merge_of.merge_done)
next
  case (Cons t trs)
  then show ?case using merge_of_first [of trs "concat trs" t] by simp
qed

lemma fan_completes:
  assumes "fan_out R NodeID wflow cs outs" and "list_all snd outs"
  shows "fan R NodeID wflow cs (concat (map fst outs))
           (Done (errChan (map child_label cs) (concat (map fst outs))))"
  using assms(1) merge_of_concat assms(2) by (rule fan_joined)






subsection \<open>Units of work on a runtime that delivers exit codes\<close>








subsection \<open>The goroutine of a finished step or task\<close>









subsection \<open>The groups of a step list\<close>











subsection \<open>A nil result and the phases written\<close>



subsection \<open>The starts of a group\<close>








subsection \<open>Executions of the examples\<close>


lemma errChan_plain: "\<forall>ev\<in>set tr. goroutine_of ev = None \<Longrightarrow> errChan gs tr = []"
  by (induction gs tr rule: errChan.induct) simp_all

lemma errChan_leaf [simp]: "errChan gs (example_leaf wflow nodeName) = []"
  unfolding example_leaf_def by (rule errChan_plain) (blast intro: container_events_plain)






lemma errChan_failed_leaf [simp]: "errChan gs (example_failed_leaf wflow nodeName) = []"
  unfolding example_failed_leaf_def by (rule errChan_plain) (blast intro: container_events_plain)







lemma example_leaf_plain:
  "ev \<in> set (example_leaf wflow nodeName) \<Longrightarrow> goroutine_of ev = None"
  "ev \<in> set (example_failed_leaf wflow nodeName) \<Longrightarrow> goroutine_of ev = None"
  unfolding example_leaf_def example_failed_leaf_def by (erule container_events_plain)+

lemma example_leaf_no_sent [simp]:
  "Sent g e \<notin> set (example_leaf wflow nodeName)"
  "Sent g e \<notin> set (example_failed_leaf wflow nodeName)"
  using example_leaf_plain(1) [of "Sent g e" wflow nodeName]
    example_leaf_plain(2) [of "Sent g e" wflow nodeName] by auto







subsection \<open>Step lists\<close>










subsection \<open>Task graphs\<close>








end
